theory Spec2Isabelle
  imports Complex_Main
begin

section \<open>Noisy quantum channels of \<^verbatim>\<open>pennylane/ops/channel.py\<close>\<close>

text \<open>
  The module defines five channel classes. Each carries four class attributes and one
  class method \<^verbatim>\<open>_kraus_matrices(cls, *params)\<close> that returns a list of NumPy arrays.
  The development embeds the class attributes as a record, the arrays as a shape with a
  row-major buffer, and every exception as a value of a sum type.

  Numbers: NumPy's \<^verbatim>\<open>float64\<close> and \<^verbatim>\<open>complex128\<close> entries are embedded as exact real and
  complex numbers, so rounding, \<^verbatim>\<open>nan\<close> and \<^verbatim>\<open>inf\<close> are outside the model.
\<close>

subsection \<open>Exceptions\<close>

text \<open>
  Every exception the module can raise is an \<^verbatim>\<open>IndexError\<close> or a \<^verbatim>\<open>ValueError\<close>; the four
  validation failures of \<^verbatim>\<open>QubitChannel\<close> are all \<^verbatim>\<open>ValueError\<close>s and differ in their message
  only, so the message is part of the value.
\<close>

datatype error = IndexError string | ValueError string

subsection \<open>Class attributes\<close>

datatype wires = Wires nat | AnyWires

record channel_class =
  num_params :: nat
  num_wires :: wires
  par_domain :: string
  grad_method :: "string option"

definition AmplitudeDamping :: channel_class where
  "AmplitudeDamping =
     \<lparr>num_params = 1, num_wires = Wires 1, par_domain = ''R'', grad_method = Some ''F''\<rparr>"

definition GeneralizedAmplitudeDamping :: channel_class where
  "GeneralizedAmplitudeDamping =
     \<lparr>num_params = 2, num_wires = Wires 1, par_domain = ''R'', grad_method = Some ''F''\<rparr>"

definition PhaseDamping :: channel_class where
  "PhaseDamping =
     \<lparr>num_params = 1, num_wires = Wires 1, par_domain = ''R'', grad_method = Some ''F''\<rparr>"

definition DepolarizingChannel :: channel_class where
  "DepolarizingChannel =
     \<lparr>num_params = 1, num_wires = Wires 1, par_domain = ''R'', grad_method = Some ''F''\<rparr>"

definition QubitChannel :: channel_class where
  "QubitChannel =
     \<lparr>num_params = 1, num_wires = AnyWires, par_domain = ''L'', grad_method = None\<rparr>"

subsection \<open>NumPy arrays\<close>

text \<open>
  An array is its \<^verbatim>\<open>shape\<close> tuple and its entries in row-major (C) order. NumPy keeps the
  number of entries equal to the product of the shape; \<open>wf_array\<close> states it.
\<close>

record ndarray =
  shape :: "nat list"
  data :: "complex list"

definition ndim :: "ndarray \<Rightarrow> nat" where
  "ndim A = length (shape A)"

definition wf_array :: "ndarray \<Rightarrow> bool" where
  "wf_array A = (length (data A) = prod_list (shape A))"

text \<open>Entry \<open>(j, k)\<close> of a 2-D array and entry \<open>(a, j, k)\<close> of a 3-D array.\<close>

definition at2 :: "ndarray \<Rightarrow> nat \<Rightarrow> nat \<Rightarrow> complex" where
  "at2 A j k = data A ! (j * (shape A ! 1) + k)"

definition at3 :: "ndarray \<Rightarrow> nat \<Rightarrow> nat \<Rightarrow> nat \<Rightarrow> complex" where
  "at3 A a j k = data A ! ((a * (shape A ! 1) + j) * (shape A ! 2) + k)"

text \<open>A 2-D array built from its entries: row \<open>j\<close>, column \<open>k\<close> holds \<open>f j k\<close>.\<close>

definition matrix_of :: "nat \<Rightarrow> nat \<Rightarrow> (nat \<Rightarrow> nat \<Rightarrow> complex) \<Rightarrow> ndarray" where
  "matrix_of r c f =
     \<lparr>shape = [r, c], data = concat (map (\<lambda>j. map (\<lambda>k. f j k) [0..<c]) [0..<r])\<rparr>"

text \<open>\<^verbatim>\<open>np.sqrt\<close> on a real scalar, at the non-negative arguments the documented parameter
  domains produce (NumPy yields \<^verbatim>\<open>nan\<close> below zero, which the embedding of floats as reals
  does not represent; every statement about a formula below keeps its arguments
  non-negative).\<close>

definition np_sqrt :: "real \<Rightarrow> complex" where
  "np_sqrt x = complex_of_real (sqrt x)"

text \<open>\<^verbatim>\<open>np.diag(v)\<close> of a 1-D sequence: the square matrix with \<open>v\<close> on its diagonal.\<close>

definition np_diag :: "complex list \<Rightarrow> ndarray" where
  "np_diag v = matrix_of (length v) (length v) (\<lambda>j k. if j = k then v ! j else 0)"

text \<open>\<^verbatim>\<open>np.eye(n)\<close>: the \<open>n\<close> by \<open>n\<close> identity matrix.\<close>

definition np_eye :: "nat \<Rightarrow> ndarray" where
  "np_eye n = matrix_of n n (\<lambda>j k. if j = k then 1 else 0)"

text \<open>\<^verbatim>\<open>np.array(rows)\<close> of a literal list of equally long rows.\<close>

definition np_array2 :: "complex list list \<Rightarrow> ndarray" where
  "np_array2 rows = \<lparr>shape = [length rows, length (rows ! 0)], data = concat rows\<rparr>"

text \<open>Scalar times array, \<^verbatim>\<open>c * A\<close>.\<close>

definition smul :: "complex \<Rightarrow> ndarray \<Rightarrow> ndarray" where
  "smul c A = \<lparr>shape = shape A, data = map (\<lambda>x. c * x) (data A)\<rparr>"

text \<open>\<^verbatim>\<open>A.conj()\<close>: entrywise complex conjugate.\<close>

definition np_conj :: "ndarray \<Rightarrow> ndarray" where
  "np_conj A = \<lparr>shape = shape A, data = map cnj (data A)\<rparr>"

subsection \<open>The four canonical channels\<close>

text \<open>
  \<^verbatim>\<open>*params\<close> is the tuple of positional arguments; for the canonical channels
  (\<^verbatim>\<open>par_domain = "R"\<close>) its elements are real scalars. \<^verbatim>\<open>params[0]\<close> raises
  \<^verbatim>\<open>IndexError\<close> on the empty tuple, and the unpacking \<^verbatim>\<open>gamma, p = params\<close> raises
  \<^verbatim>\<open>ValueError\<close> unless the tuple has exactly two elements. The class object \<open>cls\<close> is
  the first argument of each class method.
\<close>

definition AmplitudeDamping_kraus_matrices ::
    "channel_class \<Rightarrow> real list \<Rightarrow> error + ndarray list" where
  "AmplitudeDamping_kraus_matrices cls params =
     (case params of
        [] \<Rightarrow> Inl (IndexError ''tuple index out of range'')
      | gamma # _ \<Rightarrow>
          (let K0 = np_diag [1, np_sqrt (1 - gamma)];
               K1 = smul (np_sqrt gamma) (np_array2 [[0, 1], [0, 0]])
           in Inr [K0, K1]))"

definition GeneralizedAmplitudeDamping_kraus_matrices ::
    "channel_class \<Rightarrow> real list \<Rightarrow> error + ndarray list" where
  "GeneralizedAmplitudeDamping_kraus_matrices cls params =
     (case params of
        [] \<Rightarrow> Inl (ValueError ''not enough values to unpack (expected 2, got 0)'')
      | [_] \<Rightarrow> Inl (ValueError ''not enough values to unpack (expected 2, got 1)'')
      | [gamma, p] \<Rightarrow>
          (let K0 = smul (np_sqrt p) (np_diag [1, np_sqrt (1 - gamma)]);
               K1 = smul (np_sqrt p * np_sqrt gamma) (np_array2 [[0, 1], [0, 0]]);
               K2 = smul (np_sqrt (1 - p)) (np_diag [np_sqrt (1 - gamma), 1]);
               K3 = smul (np_sqrt (1 - p) * np_sqrt gamma) (np_array2 [[0, 0], [1, 0]])
           in Inr [K0, K1, K2, K3])
      | _ \<Rightarrow> Inl (ValueError ''too many values to unpack (expected 2)''))"

definition PhaseDamping_kraus_matrices ::
    "channel_class \<Rightarrow> real list \<Rightarrow> error + ndarray list" where
  "PhaseDamping_kraus_matrices cls params =
     (case params of
        [] \<Rightarrow> Inl (IndexError ''tuple index out of range'')
      | gamma # _ \<Rightarrow>
          (let K0 = np_diag [1, np_sqrt (1 - gamma)];
               K1 = np_diag [0, np_sqrt gamma]
           in Inr [K0, K1]))"

definition DepolarizingChannel_kraus_matrices ::
    "channel_class \<Rightarrow> real list \<Rightarrow> error + ndarray list" where
  "DepolarizingChannel_kraus_matrices cls params =
     (case params of
        [] \<Rightarrow> Inl (IndexError ''tuple index out of range'')
      | p # _ \<Rightarrow>
          (let K0 = smul (np_sqrt (1 - p)) (np_eye 2);
               K1 = smul (np_sqrt (p / 3)) (np_array2 [[0, 1], [1, 0]]);
               K2 = smul (np_sqrt (p / 3)) (np_array2 [[0, - \<i>], [\<i>, 0]]);
               K3 = smul (np_sqrt (p / 3)) (np_array2 [[1, 0], [0, - 1]])
           in Inr [K0, K1, K2, K3]))"

subsection \<open>NumPy operations used by the generic channel\<close>

text \<open>
  \<^verbatim>\<open>np.array(K_list)\<close> of a list of arrays that share one shape stacks them along a new
  leading axis; of the empty list it is the empty 1-D array of shape \<^verbatim>\<open>(0,)\<close>. The source
  calls it only after the same-shape check has passed, so lists of differing shapes are
  not modelled apart: the stacked shape is taken from the first element.
\<close>

definition np_array :: "ndarray list \<Rightarrow> ndarray" where
  "np_array Ks =
     (case Ks of
        [] \<Rightarrow> \<lparr>shape = [0], data = []\<rparr>
      | K # _ \<Rightarrow> \<lparr>shape = length Ks # shape K, data = concat (map data Ks)\<rparr>)"

text \<open>
  \<^verbatim>\<open>np.einsum("ajk,ajl->kl", X, Y)\<close>: entry \<open>(k, l)\<close> of the result is the sum over
  \<open>a\<close> and \<open>j\<close> of \<open>X[a,j,k] * Y[a,j,l]\<close>. Each operand must have exactly three axes,
  else NumPy raises \<^verbatim>\<open>ValueError\<close>. The summed axes must agree; the source passes an array
  and its conjugate, so they always do (lemma \<open>einsum_is_completeness_sum\<close> below), and
  the model reports every disagreement as the broadcasting failure (NumPy's message
  also names the shapes, and NumPy stretches an extent of one).
\<close>

definition np_einsum_ajk_ajl_kl :: "ndarray \<Rightarrow> ndarray \<Rightarrow> error + ndarray" where
  "np_einsum_ajk_ajl_kl X Y =
     (if ndim X < 3 then
        Inl (ValueError
          ''einstein sum subscripts string contains too many subscripts for operand 0'')
      else if 3 < ndim X then
        Inl (ValueError (''operand has more dimensions than subscripts given in einstein sum, ''
          @ ''but no '...' ellipsis provided to broadcast the extra dimensions.''))
      else if ndim Y < 3 then
        Inl (ValueError
          ''einstein sum subscripts string contains too many subscripts for operand 1'')
      else if 3 < ndim Y then
        Inl (ValueError (''operand has more dimensions than subscripts given in einstein sum, ''
          @ ''but no '...' ellipsis provided to broadcast the extra dimensions.''))
      else if (shape X ! 0, shape X ! 1) \<noteq> (shape Y ! 0, shape Y ! 1) then
        Inl (ValueError ''operands could not be broadcast together'')
      else
        Inr (matrix_of (shape X ! 2) (shape Y ! 2)
          (\<lambda>k l. sum_list (map (\<lambda>a. sum_list (map (\<lambda>j. at3 X a j k * at3 Y a j l)
              [0..<shape X ! 1])) [0..<shape X ! 0]))))"

text \<open>
  \<^verbatim>\<open>np.allclose(a, b)\<close> with NumPy's default tolerances \<^verbatim>\<open>rtol = 1e-05\<close> and
  \<^verbatim>\<open>atol = 1e-08\<close>: every pair of entries satisfies \<open>|x - y| \<le> atol + rtol * |y|\<close>. The
  source compares two arrays of one shape (the sum and the identity of the first
  matrix's extent, after the squareness check); a shape mismatch is reported as the
  broadcasting failure (NumPy stretches an extent of one).
\<close>

definition isclose :: "complex \<Rightarrow> complex \<Rightarrow> bool" where
  "isclose x y = (cmod (x - y) \<le> 1 / 100000000 + 1 / 100000 * cmod y)"

definition np_allclose :: "ndarray \<Rightarrow> ndarray \<Rightarrow> error + bool" where
  "np_allclose a b =
     (if shape a = shape b then Inr (list_all2 isclose (data a) (data b))
      else Inl (ValueError ''operands could not be broadcast together''))"

subsection \<open>The generic channel\<close>

text \<open>The four validation failures, as the source raises them.\<close>

abbreviation NonSquareError :: error where
  "NonSquareError \<equiv> ValueError
     ''Only channels with similar input and output Hilbert space dimensions can be applied.''"

abbreviation InconsistentShapeError :: error where
  "InconsistentShapeError \<equiv> ValueError ''All Kraus matrices must have the same shape.''"

abbreviation DimensionError :: error where
  "DimensionError \<equiv> ValueError
     ''Dimension of all Kraus matrices must be (2**num_wires, 2**num_wires).''"

abbreviation NotTracePreservingError :: error where
  "NotTracePreservingError \<equiv> ValueError ''Only trace preserving channels can be applied.''"

text \<open>
  \<^verbatim>\<open>all(K.shape[0] == K.shape[1] for K in K_list)\<close>: the generator is consumed in order
  and stops at the first \<^verbatim>\<open>False\<close>; indexing the shape tuple of an array with fewer than
  two axes raises \<^verbatim>\<open>IndexError\<close>.
\<close>

fun all_square :: "ndarray list \<Rightarrow> error + bool" where
  "all_square [] = Inr True"
| "all_square (K # Ks) =
     (case shape K of
        r # c # _ \<Rightarrow> if r = c then all_square Ks else Inr False
      | _ \<Rightarrow> Inl (IndexError ''tuple index out of range''))"

text \<open>
  \<^verbatim>\<open>all(K.shape == K_list[0].shape for K in K_list)\<close>: \<^verbatim>\<open>K_list[0]\<close> is evaluated inside
  the generator, so never on the empty list.
\<close>

definition all_same_shape :: "ndarray list \<Rightarrow> bool" where
  "all_same_shape K_list =
     (case K_list of [] \<Rightarrow> True | K0 # _ \<Rightarrow> list_all (\<lambda>K. shape K = shape K0) K_list)"

text \<open>\<^verbatim>\<open>all(K.ndim == 2 for K in K_list)\<close>.\<close>

definition all_ndim_2 :: "ndarray list \<Rightarrow> bool" where
  "all_ndim_2 K_list = list_all (\<lambda>K. ndim K = 2) K_list"

text \<open>\<^verbatim>\<open>K_list[0].shape[0]\<close>, with the two index errors it can raise.\<close>

definition first_extent :: "ndarray list \<Rightarrow> error + nat" where
  "first_extent K_list =
     (case K_list of
        [] \<Rightarrow> Inl (IndexError ''list index out of range'')
      | K0 # _ \<Rightarrow>
          (case shape K0 of
             [] \<Rightarrow> Inl (IndexError ''tuple index out of range'')
           | n # _ \<Rightarrow> Inr n))"

text \<open>
  \<^verbatim>\<open>QubitChannel._kraus_matrices(cls, *params)\<close>, with \<^verbatim>\<open>params[0]\<close> the list of Kraus
  matrices. The checks run in the order of the source, and each exception ends the call.
\<close>

definition QubitChannel_kraus_matrices ::
    "channel_class \<Rightarrow> ndarray list list \<Rightarrow> error + ndarray list" where
  "QubitChannel_kraus_matrices cls params =
     (case params of
        [] \<Rightarrow> Inl (IndexError ''tuple index out of range'')
      | K_list # _ \<Rightarrow>
          (case all_square K_list of
             Inl e \<Rightarrow> Inl e
           | Inr sq \<Rightarrow>
               if \<not> sq then Inl NonSquareError
               else if \<not> all_same_shape K_list then Inl InconsistentShapeError
               else if \<not> all_ndim_2 K_list then Inl DimensionError
               else
                 (let K_arr = np_array K_list in
                  case np_einsum_ajk_ajl_kl (np_conj K_arr) K_arr of
                    Inl e \<Rightarrow> Inl e
                  | Inr Kraus_sum \<Rightarrow>
                      (case first_extent K_list of
                         Inl e \<Rightarrow> Inl e
                       | Inr n \<Rightarrow>
                           (case np_allclose Kraus_sum (np_eye n) of
                              Inl e \<Rightarrow> Inl e
                            | Inr close \<Rightarrow>
                                if \<not> close then Inl NotTracePreservingError
                                else Inr K_list)))))"

subsection \<open>The completeness relation, as the specification words it\<close>

text \<open>
  The specification's invariant is \<open>\<Sum>\<^sub>i K\<^sub>i\<^sup>\<dagger> K\<^sub>i = I\<^sub>d\<close>. The definitions of this
  subsection follow those words (conjugate transpose, matrix product, matrix sum); they
  are not taken from the source, which computes the sum with one \<^verbatim>\<open>einsum\<close> call.
\<close>

definition dagger :: "ndarray \<Rightarrow> ndarray" where
  "dagger K = matrix_of (shape K ! 1) (shape K ! 0) (\<lambda>j k. cnj (at2 K k j))"

definition matmul :: "ndarray \<Rightarrow> ndarray \<Rightarrow> ndarray" where
  "matmul A B =
     matrix_of (shape A ! 0) (shape B ! 1)
       (\<lambda>i k. sum_list (map (\<lambda>j. at2 A i j * at2 B j k) [0..<shape A ! 1]))"

definition mat_add :: "ndarray \<Rightarrow> ndarray \<Rightarrow> ndarray" where
  "mat_add A B = \<lparr>shape = shape A, data = map2 (+) (data A) (data B)\<rparr>"

definition zeros :: "nat \<Rightarrow> ndarray" where
  "zeros d = matrix_of d d (\<lambda>j k. 0)"

definition completeness_sum :: "nat \<Rightarrow> ndarray list \<Rightarrow> ndarray" where
  "completeness_sum d Ks = foldr (\<lambda>K S. mat_add (matmul (dagger K) K) S) Ks (zeros d)"

section \<open>Arrays: indexing and stacking\<close>

lemma concat_nth_uniform:
  "\<forall>x\<in>set xs. length x = m \<Longrightarrow> a < length xs \<Longrightarrow> r < m \<Longrightarrow>
     concat xs ! (a * m + r) = xs ! a ! r"
proof (induction xs arbitrary: a)
  case Nil
  then show ?case by simp
next
  case (Cons x xs)
  show ?case
  proof (cases a)
    case 0
    with Cons.prems show ?thesis by (simp add: nth_append)
  next
    case (Suc b)
    with Cons.prems have "b < length xs" by simp
    with Cons have IH: "concat xs ! (b * m + r) = xs ! b ! r" by simp
    have "length x = m" using Cons.prems by simp
    then have "concat (x # xs) ! (Suc b * m + r) = concat xs ! (b * m + r)"
      by (simp add: nth_append)
    with IH Suc show ?thesis by simp
  qed
qed

lemma length_concat_uniform:
  "\<forall>x\<in>set xs. length x = m \<Longrightarrow> length (concat xs) = length xs * m"
  by (induction xs) simp_all

lemma shape_matrix_of [simp]: "shape (matrix_of r c f) = [r, c]"
  by (simp add: matrix_of_def)

lemma wf_matrix_of: "wf_array (matrix_of r c f)"
  by (simp add: wf_array_def matrix_of_def length_concat_uniform [where m = c])

lemma at2_matrix_of: "j < r \<Longrightarrow> k < c \<Longrightarrow> at2 (matrix_of r c f) j k = f j k"
  by (simp add: at2_def matrix_of_def concat_nth_uniform)

lemma matrix_of_cong:
  assumes "\<And>j k. j < r \<Longrightarrow> k < c \<Longrightarrow> f j k = g j k"
  shows "matrix_of r c f = matrix_of r c g"
proof -
  have "map (\<lambda>j. map (f j) [0..<c]) [0..<r] = map (\<lambda>j. map (g j) [0..<c]) [0..<r]"
    using assms by (intro map_cong) auto
  then show ?thesis by (simp only: matrix_of_def)
qed

lemma map2_map_map: "map2 h (map f xs) (map g xs) = map (\<lambda>x. h (f x) (g x)) xs"
  by (induction xs) simp_all

lemma map2_concat_rows:
  "map2 h (concat (map (\<lambda>j. map (F j) xs) js)) (concat (map (\<lambda>j. map (G j) xs) js)) =
   concat (map (\<lambda>j. map (\<lambda>k. h (F j k) (G j k)) xs) js)"
  by (induction js) (simp_all add: map2_map_map)

lemma mat_add_matrix_of:
  "mat_add (matrix_of r c f) (matrix_of r c g) = matrix_of r c (\<lambda>j k. f j k + g j k)"
  by (simp add: mat_add_def matrix_of_def map2_concat_rows)

lemma sum_list_nth_upt:
  "sum_list (map (\<lambda>a. g (xs ! a)) [0..<length xs]) = sum_list (map g xs)"
proof -
  have "map (\<lambda>a. g (xs ! a)) [0..<length xs] = map g (map (\<lambda>a. xs ! a) [0..<length xs])"
    by simp
  also have "\<dots> = map g xs"
    by (simp only: map_nth)
  finally show ?thesis by (simp only:)
qed

lemma np_array_stack:
  assumes "Ks \<noteq> []" "shape (hd Ks) = sh"
  shows "shape (np_array Ks) = length Ks # sh"
    and "data (np_array Ks) = concat (map data Ks)"
    and "shape (np_conj (np_array Ks)) = length Ks # sh"
    and "data (np_conj (np_array Ks)) = map cnj (concat (map data Ks))"
  using assms by (cases Ks; simp add: np_array_def np_conj_def)+

text \<open>Entry \<open>(a, j, k)\<close> of the stacked array is entry \<open>(j, k)\<close> of the \<open>a\<close>-th matrix.\<close>

lemma at3_np_array:
  assumes "\<forall>K\<in>set Ks. wf_array K \<and> shape K = [d, d]" "a < length Ks" "j < d" "k < d"
  shows "at3 (np_array Ks) a j k = at2 (Ks ! a) j k"
    and "at3 (np_conj (np_array Ks)) a j k = cnj (at2 (Ks ! a) j k)"
proof -
  have ne: "Ks \<noteq> []" using assms(2) by auto
  then have sh0: "shape (hd Ks) = [d, d]" using assms(1) by simp
  note st = np_array_stack [OF ne sh0]
  have len: "\<forall>x\<in>set (map data Ks). length x = d * d"
    using assms(1) by (auto simp: wf_array_def)
  have lt: "j * d + k < d * d"
  proof -
    have "j * d + k < j * d + d" using assms(4) by simp
    also have "\<dots> = Suc j * d" by simp
    also have "\<dots> \<le> d * d" using assms(3) by (metis Suc_leI mult_le_mono1)
    finally show ?thesis .
  qed
  have idx: "(a * d + j) * d + k = a * (d * d) + (j * d + k)"
    by (simp add: algebra_simps)
  have nth: "concat (map data Ks) ! ((a * d + j) * d + k) = data (Ks ! a) ! (j * d + k)"
    unfolding idx using concat_nth_uniform [OF len, of a "j * d + k"] assms(2) lt by simp
  have shKa: "shape (Ks ! a) = [d, d]" using assms(1,2) by simp
  show "at3 (np_array Ks) a j k = at2 (Ks ! a) j k"
    using nth by (simp add: at3_def at2_def st shKa)
  have "(a * d + j) * d + k < length (concat (map data Ks))"
  proof -
    have "a * (d * d) + (j * d + k) < a * (d * d) + d * d" using lt by simp
    also have "\<dots> = Suc a * (d * d)" by simp
    also have "\<dots> \<le> length Ks * (d * d)" using assms(2) by (metis Suc_leI mult_le_mono1)
    finally show ?thesis by (simp add: idx length_concat_uniform [OF len])
  qed
  then show "at3 (np_conj (np_array Ks)) a j k = cnj (at2 (Ks ! a) j k)"
    using nth by (simp add: at3_def at2_def st shKa)
qed

section \<open>The \<^verbatim>\<open>einsum\<close> call computes the completeness sum\<close>

lemma dagger_matmul:
  assumes "shape K = [d, d]"
  shows "matmul (dagger K) K =
    matrix_of d d (\<lambda>k l. sum_list (map (\<lambda>j. cnj (at2 K j k) * at2 K j l) [0..<d]))"
proof -
  have inner: "sum_list (map (\<lambda>j. at2 (dagger K) k j * at2 K j l) [0..<d]) =
        sum_list (map (\<lambda>j. cnj (at2 K j k) * at2 K j l) [0..<d])" if "k < d" for k l
  proof -
    have "map (\<lambda>j. at2 (dagger K) k j * at2 K j l) [0..<d] =
          map (\<lambda>j. cnj (at2 K j k) * at2 K j l) [0..<d]"
      using that assms by (intro map_cong) (auto simp: dagger_def at2_matrix_of)
    then show ?thesis by (simp only:)
  qed
  have sd: "shape (dagger K) = [d, d]"
    using assms by (simp add: dagger_def)
  have "matmul (dagger K) K =
      matrix_of d d (\<lambda>i k. sum_list (map (\<lambda>j. at2 (dagger K) i j * at2 K j k) [0..<d]))"
    by (simp add: matmul_def sd assms)
  also have "\<dots> =
      matrix_of d d (\<lambda>k l. sum_list (map (\<lambda>j. cnj (at2 K j k) * at2 K j l) [0..<d]))"
    by (rule matrix_of_cong) (rule inner)
  finally show ?thesis .
qed

lemma completeness_sum_entries:
  assumes "\<forall>K\<in>set Ks. shape K = [d, d]"
  shows "completeness_sum d Ks =
    matrix_of d d (\<lambda>k l. sum_list (map (\<lambda>K.
      sum_list (map (\<lambda>j. cnj (at2 K j k) * at2 K j l) [0..<d])) Ks))"
  using assms
proof (induction Ks)
  case Nil
  then show ?case by (simp add: completeness_sum_def zeros_def)
next
  case (Cons K Ks)
  then have IH: "completeness_sum d Ks =
    matrix_of d d (\<lambda>k l. sum_list (map (\<lambda>K.
      sum_list (map (\<lambda>j. cnj (at2 K j k) * at2 K j l) [0..<d])) Ks))"
    by simp
  have sh: "shape K = [d, d]" using Cons.prems by simp
  have "completeness_sum d (K # Ks) = mat_add (matmul (dagger K) K) (completeness_sum d Ks)"
    by (simp add: completeness_sum_def)
  then show ?case
    by (simp add: IH dagger_matmul [OF sh] mat_add_matrix_of)
qed

text \<open>
  On a non-empty list of \<open>d\<close> by \<open>d\<close> matrices, lines 270 and 271 of the source compute
  \<open>\<Sum>\<^sub>i K\<^sub>i\<^sup>\<dagger> K\<^sub>i\<close>.
\<close>

lemma einsum_is_completeness_sum:
  assumes "Ks \<noteq> []" "\<forall>K\<in>set Ks. wf_array K \<and> shape K = [d, d]"
  shows "np_einsum_ajk_ajl_kl (np_conj (np_array Ks)) (np_array Ks) =
    Inr (completeness_sum d Ks)"
proof -
  let ?X = "np_conj (np_array Ks)" and ?Y = "np_array Ks"
  have sh0: "shape (hd Ks) = [d, d]" using assms by simp
  note st = np_array_stack [OF assms(1) sh0]
  have shapes: "\<forall>K\<in>set Ks. shape K = [d, d]" using assms(2) by simp
  have inner: "sum_list (map (\<lambda>j. at3 ?X a j k * at3 ?Y a j l) [0..<d]) =
      sum_list (map (\<lambda>j. cnj (at2 (Ks ! a) j k) * at2 (Ks ! a) j l) [0..<d])"
    if "a < length Ks" "k < d" "l < d" for a k l
  proof -
    have "map (\<lambda>j. at3 ?X a j k * at3 ?Y a j l) [0..<d] =
          map (\<lambda>j. cnj (at2 (Ks ! a) j k) * at2 (Ks ! a) j l) [0..<d]"
      using that at3_np_array [OF assms(2)] by (intro map_cong) auto
    then show ?thesis by (simp only:)
  qed
  have outer: "sum_list (map (\<lambda>a. sum_list (map (\<lambda>j. at3 ?X a j k * at3 ?Y a j l) [0..<d]))
        [0..<length Ks]) =
      sum_list (map (\<lambda>K. sum_list (map (\<lambda>j. cnj (at2 K j k) * at2 K j l) [0..<d])) Ks)"
    if "k < d" "l < d" for k l
  proof -
    have "map (\<lambda>a. sum_list (map (\<lambda>j. at3 ?X a j k * at3 ?Y a j l) [0..<d])) [0..<length Ks] =
          map (\<lambda>a. sum_list (map (\<lambda>j. cnj (at2 (Ks ! a) j k) * at2 (Ks ! a) j l) [0..<d]))
            [0..<length Ks]"
      using that inner by (intro map_cong) auto
    then have "sum_list (map (\<lambda>a. sum_list (map (\<lambda>j. at3 ?X a j k * at3 ?Y a j l) [0..<d]))
          [0..<length Ks]) =
        sum_list (map (\<lambda>a. (\<lambda>K. sum_list (map (\<lambda>j. cnj (at2 K j k) * at2 K j l) [0..<d]))
          (Ks ! a)) [0..<length Ks])"
      by (simp only:)
    also have "\<dots> =
        sum_list (map (\<lambda>K. sum_list (map (\<lambda>j. cnj (at2 K j k) * at2 K j l) [0..<d])) Ks)"
      by (rule sum_list_nth_upt)
    finally show ?thesis .
  qed
  have "np_einsum_ajk_ajl_kl ?X ?Y =
      Inr (matrix_of d d (\<lambda>k l. sum_list (map (\<lambda>a. sum_list (map (\<lambda>j.
        at3 ?X a j k * at3 ?Y a j l) [0..<d])) [0..<length Ks])))"
    by (simp add: np_einsum_ajk_ajl_kl_def ndim_def st)
  also have "\<dots> = Inr (matrix_of d d (\<lambda>k l.
      sum_list (map (\<lambda>K. sum_list (map (\<lambda>j. cnj (at2 K j k) * at2 K j l) [0..<d])) Ks)))"
    using outer by (simp cong: matrix_of_cong)
  also have "\<dots> = Inr (completeness_sum d Ks)"
    by (simp only: completeness_sum_entries [OF shapes])
  finally show ?thesis .
qed

section \<open>The validation checks of the generic channel\<close>

lemma all_square_planar:
  "\<forall>K\<in>set Ks. 2 \<le> ndim K \<Longrightarrow>
     all_square Ks = Inr (list_all (\<lambda>K. shape K ! 0 = shape K ! 1) Ks)"
proof (induction Ks)
  case Nil
  then show ?case by simp
next
  case (Cons K Ks)
  then have "2 \<le> length (shape K)" by (simp add: ndim_def)
  then obtain r c sh where "shape K = r # c # sh"
    by (cases "shape K"; cases "tl (shape K)") auto
  with Cons show ?case by simp
qed

lemma all_square_uniform:
  "\<forall>K\<in>set Ks. shape K = [d, d] \<Longrightarrow> all_square Ks = Inr True"
  by (induction Ks) simp_all

text \<open>
  A non-empty list of \<open>d\<close> by \<open>d\<close> matrices passes the three shape checks, and the call
  is decided by the closeness of the completeness sum to the identity.
\<close>

lemma QubitChannel_reaches_allclose:
  assumes "K_list \<noteq> []" "\<forall>K\<in>set K_list. wf_array K \<and> shape K = [d, d]"
  shows "QubitChannel_kraus_matrices cls (K_list # rest) =
    (case np_allclose (completeness_sum d K_list) (np_eye d) of
       Inl e \<Rightarrow> Inl e
     | Inr close \<Rightarrow> if close then Inr K_list else Inl NotTracePreservingError)"
proof -
  have sq: "all_square K_list = Inr True"
    using assms(2) by (simp add: all_square_uniform [of _ d])
  have same: "all_same_shape K_list"
    using assms by (cases K_list) (auto simp: all_same_shape_def list_all_iff)
  have nd: "all_ndim_2 K_list"
    using assms(2) by (auto simp: all_ndim_2_def list_all_iff ndim_def)
  have fe: "first_extent K_list = Inr d"
    using assms by (cases K_list) (auto simp: first_extent_def)
  show ?thesis
    by (simp add: QubitChannel_kraus_matrices_def sq same nd fe
        einsum_is_completeness_sum [OF assms] split: sum.splits)
qed

text \<open>A 1-D vector already fails in the squareness check, at \<^verbatim>\<open>K.shape[1]\<close>.\<close>

lemma QubitChannel_vector_index_error:
  "QubitChannel_kraus_matrices QubitChannel [[\<lparr>shape = [2], data = [1, 0]\<rparr>]] =
     Inl (IndexError ''tuple index out of range'')"
  by (simp add: QubitChannel_kraus_matrices_def)

section \<open>Square roots in the canonical formulas\<close>

lemma np_sqrt_sq: "0 \<le> x \<Longrightarrow> np_sqrt x * np_sqrt x = complex_of_real x"
  by (simp add: np_sqrt_def flip: of_real_mult)

lemma np_sqrt_mult: "np_sqrt x * np_sqrt y = np_sqrt (x * y)"
  by (simp add: np_sqrt_def real_sqrt_mult)

lemma np_sqrt_square: "0 \<le> x \<Longrightarrow> np_sqrt (x * x) = complex_of_real x"
  by (simp add: np_sqrt_def)

lemma np_sqrt_cnj: "cnj (np_sqrt x) = np_sqrt x"
  by (simp add: np_sqrt_def)

lemma np_sqrt_0_1: "np_sqrt 0 = 0" "np_sqrt 1 = 1"
  by (simp_all add: np_sqrt_def)

lemmas matrix_eval = matrix_of_def np_diag_def np_eye_def np_array2_def smul_def dagger_def
  matmul_def mat_add_def zeros_def completeness_sum_def at2_def numeral_2_eq_2

text \<open>The identity and the three Pauli matrices, weighted by \<open>e\<close> and \<open>c\<close>.\<close>

lemma pauli_mixture_complete:
  assumes "cnj c = c" "cnj e = e" "e * e + 3 * (c * c) = 1"
  shows "completeness_sum 2 [smul e (np_eye 2), smul c (np_array2 [[0, 1], [1, 0]]),
     smul c (np_array2 [[0, - \<i>], [\<i>, 0]]), smul c (np_array2 [[1, 0], [0, - 1]])] = np_eye 2"
proof -
  have i2: "c * \<i> * (c * \<i>) = - (c * c)"
  proof -
    have "c * \<i> * (c * \<i>) = (c * c) * (\<i> * \<i>)"
      by (simp only: mult.assoc mult.left_commute)
    then show ?thesis by simp
  qed
  have "e * e + (2 * (c * c) - c * \<i> * (c * \<i>)) = 1"
    unfolding i2 using assms(3) by simp
  then show ?thesis
    by (simp add: matrix_eval assms(1,2))
qed

section \<open>The claims\<close>

subsection \<open>Canonical channels\<close>

text \<open>
  C1. For every \<open>gamma\<close> and \<open>p\<close> in \<open>[0, 1]\<close>, each of the four canonical channels
  returns a list of matrices whose completeness sum \<open>\<Sum>\<^sub>i K\<^sub>i\<^sup>\<dagger> K\<^sub>i\<close> is the 2 by 2
  identity matrix: Amplitude Damping and Phase Damping at \<open>gamma\<close>, Generalized Amplitude
  Damping at \<open>(gamma, p)\<close>, and the Depolarizing Channel at \<open>p\<close>.
\<close>

theorem canonical_channels_complete:
  assumes "0 \<le> gamma" "gamma \<le> 1" "0 \<le> p" "p \<le> 1"
  shows
    "map_sum id (completeness_sum 2) (AmplitudeDamping_kraus_matrices cls1 [gamma]) =
       Inr (np_eye 2) \<and>
     map_sum id (completeness_sum 2) (PhaseDamping_kraus_matrices cls2 [gamma]) =
       Inr (np_eye 2) \<and>
     map_sum id (completeness_sum 2) (GeneralizedAmplitudeDamping_kraus_matrices cls3 [gamma, p]) =
       Inr (np_eye 2) \<and>
     map_sum id (completeness_sum 2) (DepolarizingChannel_kraus_matrices cls4 [p]) =
       Inr (np_eye 2)"
proof -
  have g: "np_sqrt gamma * np_sqrt gamma = complex_of_real gamma"
    and g1: "np_sqrt (1 - gamma) * np_sqrt (1 - gamma) = complex_of_real (1 - gamma)"
    and p1: "np_sqrt (1 - p) * np_sqrt (1 - p) = complex_of_real (1 - p)"
    and p3: "np_sqrt (p / 3) * np_sqrt (p / 3) = complex_of_real (p / 3)"
    using assms by (simp_all add: np_sqrt_sq)
  have ad: "map_sum id (completeness_sum 2) (AmplitudeDamping_kraus_matrices cls1 [gamma]) =
      Inr (np_eye 2)"
    by (simp add: AmplitudeDamping_kraus_matrices_def Let_def matrix_eval np_sqrt_cnj g g1)
  have pd: "map_sum id (completeness_sum 2) (PhaseDamping_kraus_matrices cls2 [gamma]) =
      Inr (np_eye 2)"
    by (simp add: PhaseDamping_kraus_matrices_def Let_def matrix_eval np_sqrt_cnj g g1)
  have gad: "map_sum id (completeness_sum 2)
      (GeneralizedAmplitudeDamping_kraus_matrices cls3 [gamma, p]) = Inr (np_eye 2)"
  proof -
    have nn: "0 \<le> p * gamma" "0 \<le> p * (1 - gamma)" "0 \<le> (1 - p) * gamma"
      "0 \<le> (1 - p) * (1 - gamma)" "0 \<le> 1 - p" "0 \<le> p"
      using assms by simp_all
    have s1: "complex_of_real p + (complex_of_real ((1 - p) * (1 - gamma)) +
        complex_of_real ((1 - p) * gamma)) = 1"
      and s2: "complex_of_real (p * (1 - gamma)) + (complex_of_real (p * gamma) +
        complex_of_real (1 - p)) = 1"
      by (simp_all add: algebra_simps)
    show ?thesis
      by (simp add: GeneralizedAmplitudeDamping_kraus_matrices_def Let_def np_sqrt_mult
          matrix_eval np_sqrt_cnj np_sqrt_square nn assms s1 s2
          del: of_real_mult of_real_diff of_real_add)
  qed
  have dc: "map_sum id (completeness_sum 2) (DepolarizingChannel_kraus_matrices cls4 [p]) =
      Inr (np_eye 2)"
    by (simp add: DepolarizingChannel_kraus_matrices_def Let_def np_sqrt_cnj p1 p3
        pauli_mixture_complete)
  from ad pd gad dc show ?thesis by (simp only: simp_thms)
qed

theorem canonical_channels_complete_witness:
  "map_sum id (completeness_sum 2) (AmplitudeDamping_kraus_matrices AmplitudeDamping [1 / 4]) =
     Inr (np_eye 2) \<and>
   map_sum id (completeness_sum 2) (PhaseDamping_kraus_matrices PhaseDamping [1 / 4]) =
     Inr (np_eye 2) \<and>
   map_sum id (completeness_sum 2)
     (GeneralizedAmplitudeDamping_kraus_matrices GeneralizedAmplitudeDamping [1 / 4, 1 / 2]) =
     Inr (np_eye 2) \<and>
   map_sum id (completeness_sum 2) (DepolarizingChannel_kraus_matrices DepolarizingChannel [1 / 2]) =
     Inr (np_eye 2)"
  using canonical_channels_complete
    [of "1 / 4" "1 / 2" AmplitudeDamping PhaseDamping GeneralizedAmplitudeDamping
      DepolarizingChannel]
  by simp

text \<open>
  C2 (as the code has it). For every \<open>gamma\<close> in \<open>[0, 1]\<close>, Generalized Amplitude Damping
  at \<open>p = 1\<close> returns four matrices: the two matrices of Amplitude Damping at the same
  \<open>gamma\<close>, in the same order, followed by two 2 by 2 zero matrices.
\<close>

theorem generalized_reduces_to_amplitude_damping:
  assumes "0 \<le> gamma" "gamma \<le> 1"
  shows "\<exists>K0 K1. AmplitudeDamping_kraus_matrices cls [gamma] = Inr [K0, K1] \<and>
     GeneralizedAmplitudeDamping_kraus_matrices cls' [gamma, 1] =
       Inr [K0, K1, zeros 2, zeros 2]"
  by (simp add: AmplitudeDamping_kraus_matrices_def
      GeneralizedAmplitudeDamping_kraus_matrices_def Let_def np_sqrt_0_1 matrix_eval)

theorem generalized_reduces_witness:
  "\<exists>K0 K1. AmplitudeDamping_kraus_matrices AmplitudeDamping [1 / 4] = Inr [K0, K1] \<and>
     GeneralizedAmplitudeDamping_kraus_matrices GeneralizedAmplitudeDamping [1 / 4, 1] =
       Inr [K0, K1, zeros 2, zeros 2]"
  using generalized_reduces_to_amplitude_damping
    [of "1 / 4" AmplitudeDamping GeneralizedAmplitudeDamping]
  by simp

text \<open>
  C2 as stated fails: at \<open>gamma = 0\<close> and \<open>p = 1\<close> the two returned sequences differ (four
  matrices against two).
\<close>

theorem generalized_at_one_differs:
  "GeneralizedAmplitudeDamping_kraus_matrices GeneralizedAmplitudeDamping [0, 1] \<noteq>
   AmplitudeDamping_kraus_matrices AmplitudeDamping [0]"
  by (simp add: AmplitudeDamping_kraus_matrices_def
      GeneralizedAmplitudeDamping_kraus_matrices_def Let_def)

subsection \<open>The generic channel\<close>

text \<open>
  C3, at the empty list. The empty list is, vacuously, a list of same-shaped square 2-D
  matrices, and its completeness sum, the 2 by 2 zero matrix, is not within tolerance of
  the identity. The call does not raise the trace-preservation error there: line 271
  raises the \<^verbatim>\<open>ValueError\<close> of \<^verbatim>\<open>einsum\<close> before the comparison of line 272 is reached,
  although the comment of line 269 announces the check that the channel is trace
  preserving.
\<close>

theorem QubitChannel_empty_list_misses_trace_error:
  "all_square [] = Inr True \<and> all_same_shape [] \<and> all_ndim_2 [] \<and>
   completeness_sum 2 [] = zeros 2 \<and>
   np_allclose (completeness_sum 2 []) (np_eye 2) = Inr False \<and>
   QubitChannel_kraus_matrices QubitChannel [[]] =
     Inl (ValueError
       ''einstein sum subscripts string contains too many subscripts for operand 0'') \<and>
   QubitChannel_kraus_matrices QubitChannel [[]] \<noteq> Inl NotTracePreservingError"
  by (simp add: QubitChannel_kraus_matrices_def all_same_shape_def all_ndim_2_def
      np_array_def np_conj_def np_einsum_ajk_ajl_kl_def ndim_def np_allclose_def
      matrix_eval isclose_def)

text \<open>
  On every other list the code does what the claim says: for every non-empty list of
  well-formed \<open>d\<close> by \<open>d\<close> matrices whose completeness sum \<open>\<Sum>\<^sub>i K\<^sub>i\<^sup>\<dagger> K\<^sub>i\<close> is not
  within tolerance of the \<open>d\<close> by \<open>d\<close> identity, the generic channel raises the
  trace-preservation error (and so returns nothing).
\<close>

theorem QubitChannel_not_trace_preserving:
  assumes "K_list \<noteq> []" "\<forall>K\<in>set K_list. wf_array K \<and> shape K = [d, d]"
    and "np_allclose (completeness_sum d K_list) (np_eye d) = Inr False"
  shows "QubitChannel_kraus_matrices cls (K_list # rest) = Inl NotTracePreservingError"
  by (simp add: QubitChannel_reaches_allclose [OF assms(1,2)] assms(3))

text \<open>The list \<open>[0.9 I\<^sub>2, 0.9 I\<^sub>2]\<close>, whose completeness sum is \<open>1.62 I\<^sub>2\<close>.\<close>

theorem QubitChannel_not_trace_preserving_witness:
  "completeness_sum 2 [smul (9 / 10) (np_eye 2), smul (9 / 10) (np_eye 2)] =
     smul (81 / 50) (np_eye 2) \<and>
   QubitChannel_kraus_matrices QubitChannel
     [[smul (9 / 10) (np_eye 2), smul (9 / 10) (np_eye 2)]] = Inl NotTracePreservingError"
proof -
  let ?Ks = "[smul (9 / 10) (np_eye 2), smul (9 / 10) (np_eye 2)]"
  have h1: "?Ks \<noteq> []" by simp
  have h2: "\<forall>K\<in>set ?Ks. wf_array K \<and> shape K = [2, 2]"
    by (simp add: wf_array_def matrix_eval)
  have h3: "np_allclose (completeness_sum 2 ?Ks) (np_eye 2) = Inr False"
    by (simp add: np_allclose_def matrix_eval isclose_def)
  have "completeness_sum 2 ?Ks = smul (81 / 50) (np_eye 2)"
    by (simp add: matrix_eval)
  then show ?thesis
    using QubitChannel_not_trace_preserving [OF h1 h2 h3, of QubitChannel "[]"] by simp
qed

text \<open>
  C4. For every list that passes all four validation checks (a non-empty list of
  well-formed \<open>d\<close> by \<open>d\<close> matrices whose completeness sum is within tolerance of the
  identity), the generic channel returns exactly the input list.
\<close>

theorem QubitChannel_returns_input:
  assumes "K_list \<noteq> []" "\<forall>K\<in>set K_list. wf_array K \<and> shape K = [d, d]"
    and "np_allclose (completeness_sum d K_list) (np_eye d) = Inr True"
  shows "QubitChannel_kraus_matrices cls (K_list # rest) = Inr K_list"
  by (simp add: QubitChannel_reaches_allclose [OF assms(1,2)] assms(3))

text \<open>In particular the singleton list \<open>[I\<^sub>2]\<close> is returned unchanged.\<close>

theorem QubitChannel_returns_input_witness:
  "QubitChannel_kraus_matrices QubitChannel [[np_eye 2]] = Inr [np_eye 2]"
proof -
  have h1: "[np_eye 2] \<noteq> []" by simp
  have h2: "\<forall>K\<in>set [np_eye 2]. wf_array K \<and> shape K = [2, 2]"
    by (simp add: wf_array_def matrix_eval)
  have h3: "np_allclose (completeness_sum 2 [np_eye 2]) (np_eye 2) = Inr True"
    by (simp add: np_allclose_def matrix_eval isclose_def)
  show ?thesis
    using QubitChannel_returns_input [OF h1 h2 h3, of QubitChannel "[]"] by simp
qed

text \<open>
  C5. For every list of 2-D matrices with at least one non-square member, the generic
  channel raises the non-square error, whatever the later checks would find.
\<close>

theorem QubitChannel_non_square_first:
  assumes "\<forall>K\<in>set K_list. ndim K = 2" "\<exists>K\<in>set K_list. shape K ! 0 \<noteq> shape K ! 1"
  shows "QubitChannel_kraus_matrices cls (K_list # rest) = Inl NonSquareError"
proof -
  have "all_square K_list = Inr (list_all (\<lambda>K. shape K ! 0 = shape K ! 1) K_list)"
    using assms(1) by (intro all_square_planar) simp
  moreover have "\<not> list_all (\<lambda>K. shape K ! 0 = shape K ! 1) K_list"
    using assms(2) by (simp add: list_all_iff)
  ultimately show ?thesis
    by (simp add: QubitChannel_kraus_matrices_def)
qed

text \<open>
  A 2 by 3 matrix followed by \<open>0.9 I\<^sub>3\<close>: the shapes differ and the list is not trace
  preserving, yet the error is the non-square one.
\<close>

theorem QubitChannel_non_square_first_witness:
  "QubitChannel_kraus_matrices QubitChannel
     [[matrix_of 2 3 (\<lambda>j k. 0), smul (9 / 10) (np_eye 3)]] = Inl NonSquareError"
  using QubitChannel_non_square_first
    [of "[matrix_of 2 3 (\<lambda>j k. 0), smul (9 / 10) (np_eye 3)]" QubitChannel "[]"]
  by (simp add: ndim_def smul_def np_eye_def)

text \<open>
  C6. For every list of square 2-D matrices in which some matrix has a shape other than
  the first matrix's, the generic channel raises the inconsistent-dimensions error.
\<close>

theorem QubitChannel_inconsistent_shapes:
  assumes "\<forall>K\<in>set K_list. ndim K = 2 \<and> shape K ! 0 = shape K ! 1"
    and "\<exists>K\<in>set K_list. shape K \<noteq> shape (hd K_list)"
  shows "QubitChannel_kraus_matrices cls (K_list # rest) = Inl InconsistentShapeError"
proof -
  have "all_square K_list = Inr (list_all (\<lambda>K. shape K ! 0 = shape K ! 1) K_list)"
    using assms(1) by (intro all_square_planar) simp
  moreover have "list_all (\<lambda>K. shape K ! 0 = shape K ! 1) K_list"
    using assms(1) by (simp add: list_all_iff)
  moreover have "\<not> all_same_shape K_list"
    using assms(2) by (cases K_list) (auto simp: all_same_shape_def list_all_iff)
  ultimately show ?thesis
    by (simp add: QubitChannel_kraus_matrices_def)
qed

theorem QubitChannel_inconsistent_shapes_witness:
  "QubitChannel_kraus_matrices QubitChannel [[np_eye 2, np_eye 3]] =
     Inl InconsistentShapeError"
  using QubitChannel_inconsistent_shapes [of "[np_eye 2, np_eye 3]" QubitChannel "[]"]
  by (simp add: ndim_def np_eye_def)

text \<open>
  C7 (as the code has it). The rank check is the third check. For every list whose
  arrays all have at least two axes, equal first and second extents and the shape of
  the first array, if some array does not have exactly two axes then the generic channel
  raises the dimension error.
\<close>

theorem QubitChannel_rank_error_after_shape_checks:
  assumes "\<forall>K\<in>set K_list.
      2 \<le> ndim K \<and> shape K ! 0 = shape K ! 1 \<and> shape K = shape (hd K_list)"
    and "\<exists>K\<in>set K_list. ndim K \<noteq> 2"
  shows "QubitChannel_kraus_matrices cls (K_list # rest) = Inl DimensionError"
proof -
  have "all_square K_list = Inr (list_all (\<lambda>K. shape K ! 0 = shape K ! 1) K_list)"
    using assms(1) by (intro all_square_planar) simp
  moreover have "list_all (\<lambda>K. shape K ! 0 = shape K ! 1) K_list"
    unfolding list_all_iff using assms(1) by blast
  moreover have "all_same_shape K_list"
    using assms(1) by (cases K_list) (auto simp: all_same_shape_def list_all_iff)
  moreover have "\<not> all_ndim_2 K_list"
    using assms(2) by (simp add: all_ndim_2_def list_all_iff)
  ultimately show ?thesis
    by (simp add: QubitChannel_kraus_matrices_def)
qed

theorem QubitChannel_rank_error_witness:
  "QubitChannel_kraus_matrices QubitChannel [[\<lparr>shape = [2, 2, 2], data = replicate 8 0\<rparr>]] =
     Inl DimensionError"
  using QubitChannel_rank_error_after_shape_checks
    [of "[\<lparr>shape = [2, 2, 2], data = replicate 8 0\<rparr>]" QubitChannel "[]"]
  by (simp add: ndim_def)

text \<open>
  C7 as stated fails: a batch of three 2 by 2 matrices, of shape \<open>(3, 2, 2)\<close>, is not a
  2-D matrix, and the call ends in the non-square error of the first check, not in the
  dimension error.
\<close>

theorem QubitChannel_batched_array_non_square:
  "ndim \<lparr>shape = [3, 2, 2], data = replicate 12 0\<rparr> \<noteq> 2 \<and>
   QubitChannel_kraus_matrices QubitChannel [[\<lparr>shape = [3, 2, 2], data = replicate 12 0\<rparr>]] =
     Inl NonSquareError \<and>
   QubitChannel_kraus_matrices QubitChannel [[\<lparr>shape = [3, 2, 2], data = replicate 12 0\<rparr>]] \<noteq>
     Inl DimensionError"
  by (simp add: ndim_def QubitChannel_kraus_matrices_def)

subsection \<open>Metadata\<close>

text \<open>
  C8 (as the code has it). The exposed parameter count of the generic channel
  \<^verbatim>\<open>QubitChannel\<close> is 1: its single parameter is the list of Kraus matrices.
\<close>

theorem QubitChannel_num_params_is_one: "num_params QubitChannel = 1"
  by (simp add: QubitChannel_def)

text \<open>C8 as stated, that the count is 0, does not hold of the class attribute.\<close>

theorem QubitChannel_num_params_not_zero: "num_params QubitChannel \<noteq> 0"
  by (simp add: QubitChannel_def)

subsection \<open>The empty list\<close>

text \<open>
  C10. On the empty list of Kraus matrices the three shape and rank checks pass
  vacuously; the call then fails inside the completeness computation, with the
  \<^verbatim>\<open>ValueError\<close> that \<^verbatim>\<open>einsum\<close> raises on the 1-D array \<^verbatim>\<open>np.array([])\<close>. It returns no list,
  and the exception is none of the four validation errors.
\<close>

theorem QubitChannel_empty_list:
  "all_square [] = Inr True \<and> all_same_shape [] \<and> all_ndim_2 [] \<and>
   QubitChannel_kraus_matrices cls [[]] =
     Inl (ValueError
       ''einstein sum subscripts string contains too many subscripts for operand 0'') \<and>
   (\<forall>Ks. QubitChannel_kraus_matrices cls [[]] \<noteq> Inr Ks) \<and>
   QubitChannel_kraus_matrices cls [[]] \<noteq> Inl NonSquareError \<and>
   QubitChannel_kraus_matrices cls [[]] \<noteq> Inl InconsistentShapeError \<and>
   QubitChannel_kraus_matrices cls [[]] \<noteq> Inl DimensionError \<and>
   QubitChannel_kraus_matrices cls [[]] \<noteq> Inl NotTracePreservingError"
  by (simp add: QubitChannel_kraus_matrices_def all_same_shape_def all_ndim_2_def
      np_array_def np_conj_def np_einsum_ajk_ajl_kl_def ndim_def)

end
